theory Spec2Isabelle
  imports Complex_Main
begin

section \<open>Values of the source language\<close>

text \<open>
  Every number of the program is a JavaScript \<open>number\<close>, a double.  A finite double is a
  rational, and the carrier of the model is \<open>rat\<close>.  An optional field
  (\<open>number | null | undefined\<close>) is a \<open>number option\<close>, with \<open>None\<close> for both
  \<open>null\<close> and \<open>undefined\<close>.
\<close>

type_synonym number = rat

text \<open>A \<open>Date\<close> is its time value in milliseconds; every \<open>Date\<close> object is truthy.\<close>

type_synonym date = int

text \<open>Truthiness of an optional number: \<open>null\<close>, \<open>undefined\<close> and \<open>0\<close> are falsy.\<close>

fun truthy :: "number option \<Rightarrow> bool" where
  "truthy None = False"
| "truthy (Some x) = (x \<noteq> 0)"

text \<open>The idiom \<open>v || 0\<close>.\<close>

fun orZero :: "number option \<Rightarrow> number" where
  "orZero None = 0"
| "orZero (Some x) = (if x \<noteq> 0 then x else 0)"

text \<open>The idiom \<open>v || null\<close>.\<close>

fun orNull :: "number option \<Rightarrow> number option" where
  "orNull None = None"
| "orNull (Some x) = (if x \<noteq> 0 then Some x else None)"

section \<open>Double-precision arithmetic\<close>

text \<open>
  An arithmetic operation on doubles returns the double nearest to the exact result, a tie
  going to the even significand.  \<open>toDouble\<close> is that rounding: 53 significant bits, and
  below \<open>2\<close> to the \<open>- 1022\<close> the fixed spacing of the subnormal numbers.  The
  exponent is not bounded above: a result beyond the largest double, for which the source
  has \<open>Infinity\<close>, is not modelled, and neither is \<open>NaN\<close>.
\<close>

text \<open>The number of binary digits of a positive integer.\<close>

function bits :: "int \<Rightarrow> nat" where
  "bits n = (if n \<le> 0 then 0 else Suc (bits (n div 2)))"
  by pat_completeness auto
termination
  by (relation "measure nat") auto

declare bits.simps [simp del]

definition pow2 :: "int \<Rightarrow> rat" where
  "pow2 e = (if 0 \<le> e then of_int (2 ^ nat e) else 1 / of_int (2 ^ nat (- e)))"

text \<open>
  The \<open>e\<close> with \<open>pow2 e \<le> n / d < pow2 (e + 1)\<close>, for positive \<open>n\<close> and \<open>d\<close>: the
  difference of the numbers of digits, or one less.
\<close>

definition exponentOf :: "int \<Rightarrow> int \<Rightarrow> int" where
  "exponentOf n d =
     (let e0 = int (bits n) - int (bits d)
      in if (if 0 \<le> e0 then 2 ^ nat e0 * d \<le> n else d \<le> 2 ^ nat (- e0) * n)
         then e0 else e0 - 1)"

text \<open>The integer nearest to \<open>num / den\<close>, a tie going to the even one.\<close>

definition roundQuotient :: "int \<Rightarrow> int \<Rightarrow> int" where
  "roundQuotient num den =
     (let f = num div den; r = num mod den
      in if 2 * r < den then f
         else if den < 2 * r then f + 1
         else if even f then f else f + 1)"

text \<open>
  \<open>toDouble x\<close> is \<open>m\<close> units of size \<open>pow2 k\<close>, where the unit is 52 binary places below
  the leading digit of \<open>x\<close>, and not below \<open>pow2 (- 1074)\<close>.
\<close>

definition toDouble :: "rat \<Rightarrow> number" where
  "toDouble x =
     (let (n, d) = quotient_of x
      in if n = 0 then 0
         else
           let k = max (exponentOf \<bar>n\<bar> d) (- 1022) - 52;
               m = (if 0 \<le> k then roundQuotient \<bar>n\<bar> (d * 2 ^ nat k)
                    else roundQuotient (\<bar>n\<bar> * 2 ^ nat (- k)) d)
           in of_int (sgn n * m) * pow2 k)"

text \<open>The operators \<open>+\<close>, \<open>-\<close>, \<open>*\<close> and \<open>/\<close> of the source.\<close>

definition dadd :: "number \<Rightarrow> number \<Rightarrow> number" where
  "dadd a b = toDouble (a + b)"

definition dsub :: "number \<Rightarrow> number \<Rightarrow> number" where
  "dsub a b = toDouble (a - b)"

definition dmul :: "number \<Rightarrow> number \<Rightarrow> number" where
  "dmul a b = toDouble (a * b)"

definition ddiv :: "number \<Rightarrow> number \<Rightarrow> number" where
  "ddiv a b = toDouble (a / b)"

section \<open>Positions\<close>

datatype OptionType = Put | Call

datatype OptionStatus = Open | Closed | Assigned

text \<open>
  The object returned by \<open>calculatePositionMetrics\<close>; \<open>OptionPosition\<close> has the same four
  fields and extends it.
\<close>

record PositionMetrics =
  status :: OptionStatus
  realizedPL :: "number option"
  premiumRealizedPL :: "number option"
  stockRealizedPL :: "number option"

record OptionPosition = PositionMetrics +
  posId :: string
  wheelCycleName :: "string option"
  stockTicker :: string
  optType :: OptionType
  contracts :: number
  strike :: number
  premium :: number
  ownsStock :: bool
  stockCostBasis :: "number option"
  stockQuantity :: "number option"
  stockSalePrice :: "number option"
  assigned :: bool
  openFees :: "number option"
  closeDate :: "date option"
  premiumPaidToClose :: "number option"
  closeFees :: "number option"

subsection \<open>Status and realized P/L of one position\<close>

text \<open>
  \<open>calculatePositionMetrics\<close> of the create handler (\<open>POST /api/positions\<close>) and of the
  current update handler (\<open>PATCH /api/positions/[id]\<close>); the two functions have the same
  text.  The argument is the record under calculation, whose own derived fields are not
  read.  No test of this function looks at a computed amount, and the amounts are written
  with the exact operations, in the order of the source: each is the value of the
  source's expression up to the rounding of its operations.
\<close>

definition calculatePositionMetrics :: "'a OptionPosition_scheme \<Rightarrow> PositionMetrics" where
  "calculatePositionMetrics position =
     (let status0 = (if closeDate position \<noteq> None then Closed
                     else if assigned position \<and> ownsStock position then Assigned
                     else Open)
      in if status0 = Closed then
           (let premiumCollected = premium position * contracts position * 100;
                premiumPaid = orZero (premiumPaidToClose position) * contracts position * 100;
                fees = orZero (openFees position) + orZero (closeFees position);
                premiumRealized = premiumCollected - premiumPaid - fees;
                stockRealized =
                  (case (stockSalePrice position, stockCostBasis position, stockQuantity position) of
                     (Some salePrice, Some costBasis, Some quantity) \<Rightarrow>
                       if salePrice \<noteq> 0 \<and> costBasis \<noteq> 0 \<and> quantity \<noteq> 0
                       then (salePrice - costBasis) * quantity
                       else 0
                   | _ \<Rightarrow> 0)
            in \<lparr>status = Closed,
                realizedPL = Some (premiumRealized + stockRealized),
                premiumRealizedPL = Some premiumRealized,
                stockRealizedPL = Some stockRealized\<rparr>)
         else if status0 = Assigned then
           (let premiumCollected = premium position * contracts position * 100;
                fees = orZero (openFees position);
                premiumRealized = premiumCollected - fees
            in \<lparr>status = Assigned,
                realizedPL = Some premiumRealized,
                premiumRealizedPL = Some premiumRealized,
                stockRealizedPL = Some 0\<rparr>)
         else \<lparr>status = Open, realizedPL = None, premiumRealizedPL = None,
                stockRealizedPL = None\<rparr>)"

text \<open>
  \<open>calculatePositionMetrics\<close> of the other update handler in the repository: the status
  test reads the assignment flag alone, and the result has two fields.
\<close>

definition calculatePositionMetrics_patch1 ::
  "'a OptionPosition_scheme \<Rightarrow> OptionStatus \<times> number option" where
  "calculatePositionMetrics_patch1 position =
     (let status0 = (if closeDate position \<noteq> None then Closed
                     else if assigned position then Assigned
                     else Open)
      in if status0 = Closed then
           (let premiumCollected = premium position * contracts position * 100;
                premiumPaid = orZero (premiumPaidToClose position) * contracts position * 100;
                fees = orZero (openFees position) + orZero (closeFees position)
            in (Closed, Some (premiumCollected - premiumPaid - fees)))
         else (status0, None))"

section \<open>Strategy alerts\<close>

datatype AlertType = Roll | Close | Warning

datatype AlertUrgency = Low | Medium | High

datatype StrategyType = Standard | Custom

record StrategyConfig =
  strategyType :: StrategyType
  rollThreshold :: number
  closeThreshold :: number

text \<open>
  A \<open>StrategyAlert\<close>.  The \<open>message\<close> field, a text for display built with \<open>toFixed\<close>,
  is not part of the model.
\<close>

record StrategyAlert =
  positionId :: string
  ticker :: string
  alertType :: AlertType
  title :: string
  targetPrice :: number
  threshold :: number
  currentDistance :: number
  urgency :: AlertUrgency
  alertPosition :: OptionPosition

definition STANDARD_STRATEGY :: StrategyConfig where
  "STANDARD_STRATEGY = \<lparr>strategyType = Standard, rollThreshold = 3, closeThreshold = 75\<rparr>"

text \<open>
  The two evaluations compare computed prices and percentages with thresholds, and are
  modelled operation by operation in double arithmetic.  The source divides by \<open>strike\<close>
  and by \<open>premium\<close>; where the divisor is \<open>0\<close> it computes with \<open>NaN\<close> and \<open>Infinity\<close>,
  which the model does not have, so the statements below keep the divisor away from \<open>0\<close>
  and the operands within a range in which no result overflows.
\<close>

definition calculateRollAlert ::
  "OptionPosition \<Rightarrow> number \<Rightarrow> StrategyConfig \<Rightarrow> StrategyAlert option" where
  "calculateRollAlert position currentPrice config =
     (if status position \<noteq> Open then None
      else
        let rollThresholdMultiplier = dadd 1 (ddiv (rollThreshold config) 100);
            targetRollPrice = dmul (strike position) rollThresholdMultiplier;
            currentDistancePercent =
              dmul (ddiv (dsub currentPrice (strike position)) (strike position)) 100
        in if currentPrice \<ge> targetRollPrice then
             (let overshoot = dsub currentPrice targetRollPrice;
                  overshootPercent = dmul (ddiv overshoot (strike position)) 100;
                  urgency0 = (if overshootPercent \<ge> 1 then High
                              else if overshootPercent \<ge> 1 / 4 then Medium
                              else Low)
              in Some \<lparr>positionId = posId position,
                       ticker = stockTicker position,
                       alertType = Roll,
                       title = (if optType position = Put then ''Roll Put'' else ''Roll Call''),
                       targetPrice = targetRollPrice,
                       threshold = rollThreshold config,
                       currentDistance = currentDistancePercent,
                       urgency = urgency0,
                       alertPosition = position\<rparr>)
           else
             (let approachThresholdMultiplier =
                    dadd 1 (ddiv (dsub (rollThreshold config) (1 / 2)) 100);
                  approachPrice = dmul (strike position) approachThresholdMultiplier
              in if currentPrice \<ge> approachPrice \<and> currentPrice < targetRollPrice then
                   Some \<lparr>positionId = posId position,
                         ticker = stockTicker position,
                         alertType = Warning,
                         title = ''Approaching Roll Threshold'',
                         targetPrice = targetRollPrice,
                         threshold = rollThreshold config,
                         currentDistance = currentDistancePercent,
                         urgency = Low,
                         alertPosition = position\<rparr>
                 else None))"

definition calculateCloseAlert ::
  "OptionPosition \<Rightarrow> number option \<Rightarrow> StrategyConfig \<Rightarrow> StrategyAlert option" where
  "calculateCloseAlert position currentOptionPrice config =
     (if status position \<noteq> Open then None
      else case currentOptionPrice of
        None \<Rightarrow> None
      | Some optionPrice \<Rightarrow>
          let targetCloseMultiplier = ddiv (dsub 100 (closeThreshold config)) 100;
              targetClosePrice = dmul (premium position) targetCloseMultiplier;
              profitPercent =
                dmul (ddiv (dsub (premium position) optionPrice) (premium position)) 100
          in if optionPrice \<le> targetClosePrice then
               (let urgency0 = (if profitPercent \<ge> dadd (closeThreshold config) 5 then High
                                else if profitPercent \<ge> closeThreshold config then Medium
                                else Medium)
                in Some \<lparr>positionId = posId position,
                         ticker = stockTicker position,
                         alertType = Close,
                         title = ''Close for Profit'',
                         targetPrice = targetClosePrice,
                         threshold = closeThreshold config,
                         currentDistance = profitPercent,
                         urgency = urgency0,
                         alertPosition = position\<rparr>)
             else None)"

text \<open>\<open>if (x) { const a = f(x); if (a) alerts.push(a) }\<close>: the list of zero or one alert.\<close>

fun pushed :: "StrategyAlert option \<Rightarrow> StrategyAlert list" where
  "pushed None = []"
| "pushed (Some a) = [a]"

definition calculatePositionAlerts ::
  "OptionPosition \<Rightarrow> number option \<Rightarrow> number option \<Rightarrow> StrategyConfig \<Rightarrow> StrategyAlert list" where
  "calculatePositionAlerts position currentStockPrice currentOptionPrice config =
     (case currentStockPrice of
        None \<Rightarrow> []
      | Some stockPrice \<Rightarrow>
          if stockPrice \<noteq> 0 then pushed (calculateRollAlert position stockPrice config) else [])
     @
     (if truthy currentOptionPrice
      then pushed (calculateCloseAlert position currentOptionPrice config)
      else [])"

text \<open>\<open>String.prototype.toUpperCase\<close>, on the ASCII letters.\<close>

definition upperChar :: "char \<Rightarrow> char" where
  "upperChar c =
     (let n = (of_char c :: nat) in if 97 \<le> n \<and> n \<le> 122 then char_of (n - 32) else c)"

definition toUpperCase :: "string \<Rightarrow> string" where
  "toUpperCase s = map upperChar s"

text \<open>
  \<open>Array.prototype.sort\<close> with a comparator belongs to the language, which requires it to
  be stable.  It is modelled as a stable insertion sort: an element moves behind exactly
  those elements that the comparator puts strictly before it.
\<close>

fun insertBy :: "('a \<Rightarrow> 'a \<Rightarrow> number) \<Rightarrow> 'a \<Rightarrow> 'a list \<Rightarrow> 'a list" where
  "insertBy cmp x [] = [x]"
| "insertBy cmp x (y # ys) = (if cmp x y > 0 then y # insertBy cmp x ys else x # y # ys)"

definition sortBy :: "('a \<Rightarrow> 'a \<Rightarrow> number) \<Rightarrow> 'a list \<Rightarrow> 'a list" where
  "sortBy cmp xs = foldr (insertBy cmp) xs []"

text \<open>
  The comparator of the alerts.  The sort reads its sign only, which the rounding of a
  difference of two doubles does not change; the differences are written exactly.
\<close>

fun urgencyOrder :: "AlertUrgency \<Rightarrow> number" where
  "urgencyOrder High = 0"
| "urgencyOrder Medium = 1"
| "urgencyOrder Low = 2"

definition compareAlerts :: "StrategyAlert \<Rightarrow> StrategyAlert \<Rightarrow> number" where
  "compareAlerts a b =
     (if urgencyOrder (urgency a) \<noteq> urgencyOrder (urgency b)
      then urgencyOrder (urgency a) - urgencyOrder (urgency b)
      else \<bar>currentDistance b\<bar> - \<bar>currentDistance a\<bar>)"

text \<open>The alerts of all positions, before the sort.\<close>

definition collectAlerts ::
  "OptionPosition list \<Rightarrow> (string \<rightharpoonup> number) \<Rightarrow> (string \<rightharpoonup> number) option \<Rightarrow>
   StrategyConfig \<Rightarrow> StrategyAlert list" where
  "collectAlerts positions stockPrices optionPrices config =
     concat (map (\<lambda>position.
       if status position \<noteq> Open then []
       else
         let stockPrice = stockPrices (toUpperCase (stockTicker position));
             optionPrice = orNull (case optionPrices of
                                     None \<Rightarrow> None
                                   | Some prices \<Rightarrow> prices (posId position))
         in calculatePositionAlerts position (orNull stockPrice) optionPrice config) positions)"

definition calculateAllAlerts ::
  "OptionPosition list \<Rightarrow> (string \<rightharpoonup> number) \<Rightarrow> (string \<rightharpoonup> number) option \<Rightarrow>
   StrategyConfig \<Rightarrow> StrategyAlert list" where
  "calculateAllAlerts positions stockPrices optionPrices config =
     sortBy compareAlerts (collectAlerts positions stockPrices optionPrices config)"

definition getStrategyConfig :: "StrategyType \<Rightarrow> number \<Rightarrow> number \<Rightarrow> StrategyConfig" where
  "getStrategyConfig activeStrategy0 customRollThreshold0 customCloseThreshold0 =
     (if activeStrategy0 = Standard then STANDARD_STRATEGY
      else \<lparr>strategyType = Custom, rollThreshold = customRollThreshold0,
            closeThreshold = customCloseThreshold0\<rparr>)"

section \<open>Wheel cycles\<close>

datatype CycleStatus = Active | Completed

text \<open>
  \<open>Math.round(x * 100) / 100\<close>: the product and the quotient are double operations, and
  \<open>Math.round\<close> gives the nearest integer of a double, a half going towards \<open>+\<infinity>\<close>.
\<close>

definition mathRound :: "number \<Rightarrow> int" where
  "mathRound y = \<lfloor>y + 1 / 2\<rfloor>"

definition round2 :: "number \<Rightarrow> number" where
  "round2 x = ddiv (of_int (mathRound (dmul x 100))) 100"

text \<open>
  The summary of a cycle, and the accumulator of the grouping loop, which carries the
  positions of the group as well.
\<close>

record WheelCycleSummary =
  name :: string
  totalPositions :: nat
  openPositions :: nat
  closedPositions :: nat
  totalPL :: number
  realizedPL_c :: number
  unrealizedPL_c :: number
  totalPremiumCollected :: number
  cycleStatus :: CycleStatus

record WheelCycle = WheelCycleSummary +
  positions :: "OptionPosition list"

definition cycleNameOf :: "OptionPosition \<Rightarrow> string" where
  "cycleNameOf position =
     (case wheelCycleName position of
        None \<Rightarrow> ''Uncategorized''
      | Some n \<Rightarrow> if n \<noteq> [] then n else ''Uncategorized'')"

definition newCycle :: "string \<Rightarrow> WheelCycle" where
  "newCycle cycleName =
     \<lparr>name = cycleName, totalPositions = 0, openPositions = 0, closedPositions = 0,
      totalPL = 0, realizedPL_c = 0, unrealizedPL_c = 0, totalPremiumCollected = 0,
      cycleStatus = Active, positions = []\<rparr>"

text \<open>
  The body of the loop over the positions, on the cycle of the position.  The totals go
  through the rounding to cents below, and are accumulated in double arithmetic.
\<close>

definition accrue :: "WheelCycle \<Rightarrow> OptionPosition \<Rightarrow> WheelCycle" where
  "accrue cycle position =
     (let c1 = cycle\<lparr>positions := positions cycle @ [position],
                     totalPositions := totalPositions cycle + 1\<rparr>;
          c2 =
            (if status position = Open \<or> status position = Assigned then
               (let premiumCollected = dmul (dmul (premium position) (contracts position)) 100
                in c1\<lparr>openPositions := openPositions c1 + 1,
                      cycleStatus := Active,
                      unrealizedPL_c :=
                        dadd (unrealizedPL_c c1)
                          (dsub premiumCollected (orZero (openFees position))),
                      totalPremiumCollected :=
                        dadd (totalPremiumCollected c1) premiumCollected\<rparr>)
             else if status position = Closed then
               (let c1' = c1\<lparr>closedPositions := closedPositions c1 + 1\<rparr>;
                    c1'' = (case realizedPL position of
                              None \<Rightarrow> c1'
                            | Some pl \<Rightarrow>
                                if pl \<noteq> 0
                                then c1'\<lparr>realizedPL_c := dadd (realizedPL_c c1') pl\<rparr>
                                else c1');
                    premiumCollected = dmul (dmul (premium position) (contracts position)) 100;
                    premiumPaid =
                      dmul (dmul (orZero (premiumPaidToClose position)) (contracts position)) 100
                in c1''\<lparr>totalPremiumCollected :=
                          dadd (totalPremiumCollected c1'') (dsub premiumCollected premiumPaid)\<rparr>)
             else c1)
      in c2\<lparr>totalPL := dadd (realizedPL_c c2) (unrealizedPL_c c2)\<rparr>)"

text \<open>
  \<open>wheelCyclesMap\<close> is a \<open>Map\<close>, which keeps its keys in the order of their insertion: an
  association list, a new key being put at the end.
\<close>

fun updateCycle :: "string \<Rightarrow> WheelCycle \<Rightarrow> (string \<times> WheelCycle) list \<Rightarrow> (string \<times> WheelCycle) list" where
  "updateCycle k v [] = [(k, v)]"
| "updateCycle k v ((k', v') # m) = (if k' = k then (k, v) # m else (k', v') # updateCycle k v m)"

definition addPosition ::
  "(string \<times> WheelCycle) list \<Rightarrow> OptionPosition \<Rightarrow> (string \<times> WheelCycle) list" where
  "addPosition wheelCyclesMap position =
     (let cycleName = cycleNameOf position
      in case map_of wheelCyclesMap cycleName of
           None \<Rightarrow> updateCycle cycleName (accrue (newCycle cycleName) position) wheelCyclesMap
         | Some cycle \<Rightarrow> updateCycle cycleName (accrue cycle position) wheelCyclesMap)"

definition groupPositions :: "OptionPosition list \<Rightarrow> (string \<times> WheelCycle) list" where
  "groupPositions ps = foldl addPosition [] ps"

definition determineStatus :: "WheelCycle \<Rightarrow> WheelCycle" where
  "determineStatus cycle =
     (if openPositions cycle = 0 \<and> closedPositions cycle > 0
      then cycle\<lparr>cycleStatus := Completed\<rparr> else cycle)"

definition summarize :: "WheelCycle \<Rightarrow> WheelCycleSummary" where
  "summarize cycle =
     \<lparr>name = name cycle,
      totalPositions = totalPositions cycle,
      openPositions = openPositions cycle,
      closedPositions = closedPositions cycle,
      totalPL = round2 (totalPL cycle),
      realizedPL_c = round2 (realizedPL_c cycle),
      unrealizedPL_c = round2 (unrealizedPL_c cycle),
      totalPremiumCollected = round2 (totalPremiumCollected cycle),
      cycleStatus = cycleStatus cycle\<rparr>"

text \<open>The comparator of the cycles, of which the sort reads the sign only.\<close>

definition compareCycles :: "WheelCycleSummary \<Rightarrow> WheelCycleSummary \<Rightarrow> number" where
  "compareCycles a b =
     (if cycleStatus a = Active \<and> cycleStatus b = Completed then - 1
      else if cycleStatus a = Completed \<and> cycleStatus b = Active then 1
      else totalPL b - totalPL a)"

text \<open>The cycles before the summary and the sort, and the response of \<open>GET /api/wheel-cycles\<close>.\<close>

definition cyclesOf :: "OptionPosition list \<Rightarrow> WheelCycle list" where
  "cyclesOf ps = map (determineStatus \<circ> snd) (groupPositions ps)"

definition wheelCycles :: "OptionPosition list \<Rightarrow> WheelCycleSummary list" where
  "wheelCycles ps = sortBy compareCycles (map summarize (cyclesOf ps))"

section \<open>Portfolio metrics\<close>

record PortfolioMetrics =
  totalPositions_m :: nat
  openPositions_m :: nat
  closedPositions_m :: nat
  assignedPositions_m :: nat
  realizedPL_m :: number
  premiumRealizedPL_m :: number
  stockRealizedPL_m :: number
  unrealizedPL_m :: number
  premiumUnrealizedPL_m :: number
  stockUnrealizedPL_m :: number
  openPremiumCollected :: number
  closedPremiumCollected :: number
  totalCapitalAllocated :: number
  totalFees :: number

definition initialMetrics :: "OptionPosition list \<Rightarrow> PortfolioMetrics" where
  "initialMetrics ps =
     \<lparr>totalPositions_m = length ps,
      openPositions_m = length (filter (\<lambda>p. status p = Open) ps),
      closedPositions_m = length (filter (\<lambda>p. status p = Closed) ps),
      assignedPositions_m = length (filter (\<lambda>p. status p = Assigned) ps),
      realizedPL_m = 0, premiumRealizedPL_m = 0, stockRealizedPL_m = 0,
      unrealizedPL_m = 0, premiumUnrealizedPL_m = 0, stockUnrealizedPL_m = 0,
      openPremiumCollected = 0, closedPremiumCollected = 0,
      totalCapitalAllocated = 0, totalFees = 0\<rparr>"

text \<open>\<open>if (v) { acc += v }\<close> on an optional number.\<close>

definition plusTruthy :: "number \<Rightarrow> number option \<Rightarrow> number" where
  "plusTruthy acc v =
     (case v of None \<Rightarrow> acc | Some x \<Rightarrow> if x \<noteq> 0 then dadd acc x else acc)"

text \<open>
  The body of the loop of \<open>GET /api/metrics\<close>, in its three parts, in double arithmetic.
\<close>

definition accrueStatus ::
  "(string \<rightharpoonup> number) \<Rightarrow> PortfolioMetrics \<Rightarrow> OptionPosition \<Rightarrow> PortfolioMetrics" where
  "accrueStatus currentStockPrices metrics position =
     (let premiumCollected = dmul (dmul (premium position) (contracts position)) 100
      in if status position = Closed then
           (let premiumPaidToClose0 =
                  dmul (dmul (orZero (premiumPaidToClose position)) (contracts position)) 100;
                netPremium = dsub premiumCollected premiumPaidToClose0
            in metrics\<lparr>closedPremiumCollected := dadd (closedPremiumCollected metrics) netPremium,
                        realizedPL_m := plusTruthy (realizedPL_m metrics) (realizedPL position),
                        premiumRealizedPL_m :=
                          plusTruthy (premiumRealizedPL_m metrics) (premiumRealizedPL position),
                        stockRealizedPL_m :=
                          plusTruthy (stockRealizedPL_m metrics) (stockRealizedPL position)\<rparr>)
         else if status position = Open then
           (let premiumUnrealized = dsub premiumCollected (orZero (openFees position))
            in metrics\<lparr>openPremiumCollected := dadd (openPremiumCollected metrics) premiumCollected,
                        premiumUnrealizedPL_m :=
                          dadd (premiumUnrealizedPL_m metrics) premiumUnrealized\<rparr>)
         else if status position = Assigned then
           (let m1 = metrics\<lparr>closedPremiumCollected :=
                               dadd (closedPremiumCollected metrics) premiumCollected\<rparr>;
                m2 = m1\<lparr>premiumRealizedPL_m :=
                           plusTruthy (premiumRealizedPL_m m1) (premiumRealizedPL position),
                         realizedPL_m :=
                           plusTruthy (realizedPL_m m1) (premiumRealizedPL position)\<rparr>
            in if ownsStock position \<and> truthy (stockCostBasis position)
                  \<and> truthy (stockQuantity position) then
                 (case currentStockPrices (toUpperCase (stockTicker position)) of
                    None \<Rightarrow> m2
                  | Some currentPrice \<Rightarrow>
                      if currentPrice \<noteq> 0 then
                        (let stockUnrealized =
                               dmul (dsub currentPrice (orZero (stockCostBasis position)))
                                 (orZero (stockQuantity position))
                         in m2\<lparr>stockUnrealizedPL_m :=
                                dadd (stockUnrealizedPL_m m2) stockUnrealized\<rparr>)
                      else m2)
               else m2)
         else metrics)"

definition accrueCapital :: "PortfolioMetrics \<Rightarrow> OptionPosition \<Rightarrow> PortfolioMetrics" where
  "accrueCapital metrics position =
     (if status position = Open \<or> status position = Assigned then
        (if optType position = Put then
           (let capitalRequired = dmul (dmul (strike position) (contracts position)) 100
            in metrics\<lparr>totalCapitalAllocated :=
                        dadd (totalCapitalAllocated metrics) capitalRequired\<rparr>)
         else if optType position = Call \<and> ownsStock position then
           (let stockValue =
                  (if ownsStock position \<and> truthy (stockCostBasis position)
                   then dmul (dmul (orZero (stockCostBasis position)) (contracts position)) 100
                   else dmul (dmul (strike position) (contracts position)) 100)
            in metrics\<lparr>totalCapitalAllocated :=
                        dadd (totalCapitalAllocated metrics) stockValue\<rparr>)
         else metrics)
      else metrics)"

definition accruePosition ::
  "(string \<rightharpoonup> number) \<Rightarrow> PortfolioMetrics \<Rightarrow> OptionPosition \<Rightarrow> PortfolioMetrics" where
  "accruePosition currentStockPrices metrics position =
     (let fees = dadd (orZero (openFees position)) (orZero (closeFees position));
          m1 = metrics\<lparr>totalFees := dadd (totalFees metrics) fees\<rparr>;
          m2 = accrueStatus currentStockPrices m1 position
      in accrueCapital m2 position)"

text \<open>The totals before the rounding, and the response of \<open>GET /api/metrics\<close>.\<close>

definition rawMetrics :: "OptionPosition list \<Rightarrow> (string \<rightharpoonup> number) \<Rightarrow> PortfolioMetrics" where
  "rawMetrics ps currentStockPrices =
     (let m = foldl (accruePosition currentStockPrices) (initialMetrics ps) ps
      in m\<lparr>unrealizedPL_m := dadd (premiumUnrealizedPL_m m) (stockUnrealizedPL_m m)\<rparr>)"

definition portfolioMetrics :: "OptionPosition list \<Rightarrow> (string \<rightharpoonup> number) \<Rightarrow> PortfolioMetrics" where
  "portfolioMetrics ps currentStockPrices =
     (let m = rawMetrics ps currentStockPrices
      in m\<lparr>realizedPL_m := round2 (realizedPL_m m),
            premiumRealizedPL_m := round2 (premiumRealizedPL_m m),
            stockRealizedPL_m := round2 (stockRealizedPL_m m),
            unrealizedPL_m := round2 (unrealizedPL_m m),
            premiumUnrealizedPL_m := round2 (premiumUnrealizedPL_m m),
            stockUnrealizedPL_m := round2 (stockUnrealizedPL_m m),
            openPremiumCollected := round2 (openPremiumCollected m),
            closedPremiumCollected := round2 (closedPremiumCollected m),
            totalCapitalAllocated := round2 (totalCapitalAllocated m),
            totalFees := round2 (totalFees m)\<rparr>)"

section \<open>Strategy configuration and dismissals\<close>

record UserStrategyConfig =
  activeStrategy :: StrategyType
  customRollThreshold :: number
  customCloseThreshold :: number
  dismissedAlerts :: "string list"
  dismissedAt :: "string \<rightharpoonup> int"

definition DEFAULT_STRATEGY_CONFIG :: UserStrategyConfig where
  "DEFAULT_STRATEGY_CONFIG =
     \<lparr>activeStrategy = Standard, customRollThreshold = 3, customCloseThreshold = 75,
      dismissedAlerts = [], dismissedAt = Map.empty\<rparr>"

definition ALERT_REAPPEAR_HOURS :: int where
  "ALERT_REAPPEAR_HOURS = 24"

text \<open>
  The state updates of the hook \<open>useStrategyAlerts\<close>, as functions from the previous
  configuration to the next; \<open>now\<close> is the value of \<open>Date.now()\<close>.
\<close>

definition dismissAlert :: "int \<Rightarrow> string \<Rightarrow> UserStrategyConfig \<Rightarrow> UserStrategyConfig" where
  "dismissAlert now positionId0 prev =
     prev\<lparr>dismissedAlerts := dismissedAlerts prev @ [positionId0],
          dismissedAt := (dismissedAt prev)(positionId0 \<mapsto> now)\<rparr>"

definition undismissAlert :: "string \<Rightarrow> UserStrategyConfig \<Rightarrow> UserStrategyConfig" where
  "undismissAlert positionId0 prev =
     (let newDismissedAlerts = filter (\<lambda>i. i \<noteq> positionId0) (dismissedAlerts prev);
          newDismissedAt = (dismissedAt prev)(positionId0 := None)
      in prev\<lparr>dismissedAlerts := newDismissedAlerts, dismissedAt := newDismissedAt\<rparr>)"

definition clearAllDismissed :: "UserStrategyConfig \<Rightarrow> UserStrategyConfig" where
  "clearAllDismissed prev = prev\<lparr>dismissedAlerts := [], dismissedAt := Map.empty\<rparr>"

text \<open>
  The clean-up effect.  \<open>Object.fromEntries\<close> of the filtered \<open>Object.entries\<close> is the
  restriction of the map to the kept keys.
\<close>

definition keepDismissal :: "int \<Rightarrow> (string \<rightharpoonup> int) \<Rightarrow> string \<Rightarrow> bool" where
  "keepDismissal now stamps positionId0 =
     (let hoursInMs = ALERT_REAPPEAR_HOURS * 60 * 60 * 1000
      in case stamps positionId0 of
           None \<Rightarrow> False
         | Some dismissedTime \<Rightarrow>
             if dismissedTime = 0 then False else now - dismissedTime < hoursInMs)"

definition expirySweep :: "int \<Rightarrow> UserStrategyConfig \<Rightarrow> UserStrategyConfig" where
  "expirySweep now strategyConfig =
     (let newDismissedAlerts =
            filter (keepDismissal now (dismissedAt strategyConfig)) (dismissedAlerts strategyConfig);
          newDismissedAt = dismissedAt strategyConfig |` set newDismissedAlerts
      in if length newDismissedAlerts \<noteq> length (dismissedAlerts strategyConfig)
         then strategyConfig\<lparr>dismissedAlerts := newDismissedAlerts,
                             dismissedAt := newDismissedAt\<rparr>
         else strategyConfig)"

definition activeAlerts :: "StrategyAlert list \<Rightarrow> UserStrategyConfig \<Rightarrow> StrategyAlert list" where
  "activeAlerts allAlerts strategyConfig =
     filter (\<lambda>alert. positionId alert \<notin> set (dismissedAlerts strategyConfig)) allAlerts"

text \<open>The dismissal list and the timestamp map name the same position ids.\<close>

definition dismissalsInSync :: "UserStrategyConfig \<Rightarrow> bool" where
  "dismissalsInSync c = (set (dismissedAlerts c) = dom (dismissedAt c))"

section \<open>The words of the specification, and example inputs\<close>



text \<open>
  The quantities of the roll and close evaluations, each operation being the one on
  doubles.
\<close>

definition targetRollPrice :: "OptionPosition \<Rightarrow> StrategyConfig \<Rightarrow> number" where
  "targetRollPrice p c = dmul (strike p) (dadd 1 (ddiv (rollThreshold c) 100))"

definition approachPrice :: "OptionPosition \<Rightarrow> StrategyConfig \<Rightarrow> number" where
  "approachPrice p c = dmul (strike p) (dadd 1 (ddiv (dsub (rollThreshold c) (1 / 2)) 100))"

definition overshootPercent :: "OptionPosition \<Rightarrow> StrategyConfig \<Rightarrow> number \<Rightarrow> number" where
  "overshootPercent p c price = dmul (ddiv (dsub price (targetRollPrice p c)) (strike p)) 100"

definition distancePercent :: "OptionPosition \<Rightarrow> number \<Rightarrow> number" where
  "distancePercent p price = dmul (ddiv (dsub price (strike p)) (strike p)) 100"

definition targetClosePrice :: "OptionPosition \<Rightarrow> StrategyConfig \<Rightarrow> number" where
  "targetClosePrice p c = dmul (premium p) (ddiv (dsub 100 (closeThreshold c)) 100)"

definition profitPercent :: "OptionPosition \<Rightarrow> number \<Rightarrow> number" where
  "profitPercent p optionPrice = dmul (ddiv (dsub (premium p) optionPrice) (premium p)) 100"

text \<open>The two target prices as the specification writes them, in exact arithmetic.\<close>

definition exactTargetRollPrice :: "OptionPosition \<Rightarrow> StrategyConfig \<Rightarrow> rat" where
  "exactTargetRollPrice p c = strike p * (1 + rollThreshold c / 100)"

definition exactTargetClosePrice :: "OptionPosition \<Rightarrow> StrategyConfig \<Rightarrow> rat" where
  "exactTargetClosePrice p c = premium p * (100 - closeThreshold c) / 100"

text \<open>
  The operands for which every result of the two evaluations is a finite double: doubles
  of a magnitude of at most \<open>2\<close> to the \<open>200\<close> and, for a divisor, of at least \<open>2\<close> to
  the \<open>- 200\<close>.
\<close>

definition moderate :: "number \<Rightarrow> bool" where
  "moderate x \<longleftrightarrow> toDouble x = x \<and> \<bar>x\<bar> \<le> pow2 200"

definition moderateDivisor :: "number \<Rightarrow> bool" where
  "moderateDivisor x \<longleftrightarrow> moderate x \<and> pow2 (- 200) \<le> \<bar>x\<bar>"

text \<open>
  An open put on \<open>XYZ\<close>: strike 100, one contract, premium 2.00, open fees 1.
\<close>

definition examplePut :: OptionPosition where
  "examplePut =
     \<lparr>status = Open, realizedPL = None, premiumRealizedPL = None, stockRealizedPL = None,
      posId = ''p1'', wheelCycleName = Some ''XYZ'', stockTicker = ''XYZ'', optType = Put,
      contracts = 1, strike = 100, premium = 2, ownsStock = False, stockCostBasis = None,
      stockQuantity = None, stockSalePrice = None, assigned = False, openFees = Some 1,
      closeDate = None, premiumPaidToClose = None, closeFees = None\<rparr>"

text \<open>A custom strategy with a roll threshold of 9, and one with a close threshold of 65.\<close>

definition rollNine :: StrategyConfig where
  "rollNine = \<lparr>strategyType = Custom, rollThreshold = 9, closeThreshold = 75\<rparr>"

definition closeSixtyFive :: StrategyConfig where
  "closeSixtyFive = \<lparr>strategyType = Custom, rollThreshold = 3, closeThreshold = 65\<rparr>"

text \<open>The put sold for a premium of 22.50.\<close>

definition richPut :: OptionPosition where
  "richPut = examplePut\<lparr>premium := 45 / 2\<rparr>"

text \<open>The put bought back at 0.50 with close fees 1.\<close>

definition closedPut :: OptionPosition where
  "closedPut = examplePut\<lparr>closeDate := Some 1700000000000, premiumPaidToClose := Some (1 / 2),
     closeFees := Some 1\<rparr>"


text \<open>The put with the assignment flag set, without and with the stock.\<close>

definition flaggedPut :: OptionPosition where
  "flaggedPut = examplePut\<lparr>assigned := True\<rparr>"


text \<open>The fixed order of the urgencies: high before medium before low.\<close>

definition urgencyPrecedes :: "AlertUrgency \<Rightarrow> AlertUrgency \<Rightarrow> bool" where
  "urgencyPrecedes u v = ((u = High \<and> (v = Medium \<or> v = Low)) \<or> (u = Medium \<and> v = Low))"

text \<open>Two more open puts, on \<open>abc\<close> and on \<open>QQQ\<close>, and a price for each ticker.\<close>

definition examplePut2 :: OptionPosition where
  "examplePut2 = examplePut\<lparr>posId := ''p2'', stockTicker := ''abc'', wheelCycleName := Some ''ABC''\<rparr>"

definition examplePut3 :: OptionPosition where
  "examplePut3 = examplePut\<lparr>posId := ''p3'', stockTicker := ''QQQ'', wheelCycleName := Some ''QQQ''\<rparr>"

definition examplePrices :: "string \<rightharpoonup> number" where
  "examplePrices = [''XYZ'' \<mapsto> 104, ''ABC'' \<mapsto> 821 / 8, ''QQQ'' \<mapsto> 105]"

text \<open>
  The put after assignment, as stored: 100 shares held at a cost basis of 98.
\<close>

definition stockHolder :: OptionPosition where
  "stockHolder = examplePut\<lparr>status := Assigned, assigned := True, ownsStock := True,
     stockCostBasis := Some 98, stockQuantity := Some 100,
     realizedPL := Some 199, premiumRealizedPL := Some 199, stockRealizedPL := Some 0\<rparr>"

text \<open>
  A configuration with two dismissals, stamped 1000 ms and 87400000 ms.
\<close>

definition exampleConfig :: UserStrategyConfig where
  "exampleConfig = DEFAULT_STRATEGY_CONFIG\<lparr>dismissedAlerts := [''old'', ''new''],
     dismissedAt := [''old'' \<mapsto> 1000, ''new'' \<mapsto> 87400000]\<rparr>"

text \<open>The positions of the cycle named \<open>k\<close>.\<close>

definition groupOf :: "string \<Rightarrow> OptionPosition list \<Rightarrow> OptionPosition list" where
  "groupOf k ps = filter (\<lambda>p. cycleNameOf p = k) ps"

text \<open>
  What the map of the grouping loop holds after the positions \<open>qs\<close>: one entry for each
  name that occurs, with the cycle accrued from the positions of that name, in their order.
\<close>

definition grouped :: "OptionPosition list \<Rightarrow> (string \<times> WheelCycle) list \<Rightarrow> bool" where
  "grouped qs m \<longleftrightarrow>
     distinct (map fst m)
     \<and> (\<forall>k. map_of m k = (if groupOf k qs = [] then None
                           else Some (foldl accrue (newCycle k) (groupOf k qs))))"

text \<open>The closed put as stored, on \<open>XYZ\<close> and on \<open>ABC\<close>.\<close>

definition closedPutStored :: OptionPosition where
  "closedPutStored = closedPut\<lparr>posId := ''p4'', status := Closed, realizedPL := Some 148,
     premiumRealizedPL := Some 148, stockRealizedPL := Some 0\<rparr>"

definition closedPutABC :: OptionPosition where
  "closedPutABC = closedPutStored\<lparr>posId := ''p5'', stockTicker := ''ABC'',
     wheelCycleName := Some ''ABC''\<rparr>"

section \<open>Status and realized P/L\<close>


lemma calculatePositionMetrics_status:
  "status (calculatePositionMetrics p) =
     (if closeDate p \<noteq> None then Closed
      else if assigned p \<and> ownsStock p then Assigned else Open)"
  by (simp add: calculatePositionMetrics_def Let_def)


lemma status_assigned_iff:
  "status (calculatePositionMetrics p) = Assigned \<longleftrightarrow>
     assigned p \<and> closeDate p = None \<and> ownsStock p"
  by (auto simp add: calculatePositionMetrics_status)

lemma status_open_iff:
  "status (calculatePositionMetrics p) = Open \<longleftrightarrow>
     closeDate p = None \<and> \<not> (assigned p \<and> ownsStock p)"
  by (auto simp add: calculatePositionMetrics_status)

lemma patch1_status:
  "fst (calculatePositionMetrics_patch1 p) =
     (if closeDate p \<noteq> None then Closed else if assigned p then Assigned else Open)"
  by (simp add: calculatePositionMetrics_patch1_def Let_def)

text \<open>
  C1.  The status is \<open>closed\<close> iff a close date is present, \<open>assigned\<close> iff the assignment
  flag is set, no close date is present and stock is owned, and \<open>open\<close> otherwise, on the
  create path and on every update path.  The create handler and the current update
  handler compute exactly this (\<open>calculatePositionMetrics_status\<close>).  The other update
  handler does not: for the put with the assignment flag set, no close date and no stock
  owned it answers \<open>assigned\<close>, where the two others answer \<open>open\<close>.
\<close>

theorem patch1_assigned_without_stock:
  "assigned flaggedPut \<and> closeDate flaggedPut = None \<and> \<not> ownsStock flaggedPut
   \<and> fst (calculatePositionMetrics_patch1 flaggedPut) = Assigned
   \<and> status (calculatePositionMetrics flaggedPut) = Open"
  by (simp add: calculatePositionMetrics_patch1_def calculatePositionMetrics_def
        flaggedPut_def examplePut_def)






section \<open>Roll and close evaluation\<close>

lemma alertType_calculateRollAlert:
  "calculateRollAlert p price c = Some a \<Longrightarrow> alertType a \<noteq> Close"
  by (auto simp add: calculateRollAlert_def Let_def split: if_splits)

lemma alertType_calculateCloseAlert:
  "calculateCloseAlert p v c = Some a \<Longrightarrow> alertType a = Close"
  by (auto simp add: calculateCloseAlert_def Let_def split: if_splits option.splits)

lemma close_alerts_of_position:
  "filter (\<lambda>a. alertType a = Close) (calculatePositionAlerts p stockPrice optionPrice c) =
     (if truthy optionPrice then pushed (calculateCloseAlert p optionPrice c) else [])"
proof -
  have r: "filter (\<lambda>a. alertType a = Close) (pushed (calculateRollAlert p x c)) = []" for x
    by (cases "calculateRollAlert p x c") (auto dest: alertType_calculateRollAlert)
  have k: "filter (\<lambda>a. alertType a = Close) (pushed (calculateCloseAlert p optionPrice c))
             = pushed (calculateCloseAlert p optionPrice c)"
    by (cases "calculateCloseAlert p optionPrice c") (auto dest: alertType_calculateCloseAlert)
  show ?thesis
    by (cases stockPrice) (simp_all add: calculatePositionAlerts_def r k)
qed

lemma roll_alerts_of_position:
  "filter (\<lambda>a. alertType a \<noteq> Close) (calculatePositionAlerts p (Some price) optionPrice c) =
     (if price \<noteq> 0 then pushed (calculateRollAlert p price c) else [])"
proof -
  have r: "filter (\<lambda>a. alertType a \<noteq> Close) (pushed (calculateRollAlert p price c))
             = pushed (calculateRollAlert p price c)"
    by (cases "calculateRollAlert p price c") (auto dest: alertType_calculateRollAlert)
  have k: "filter (\<lambda>a. alertType a \<noteq> Close) (pushed (calculateCloseAlert p optionPrice c)) = []"
    by (cases "calculateCloseAlert p optionPrice c") (auto dest: alertType_calculateCloseAlert)
  show ?thesis
    by (simp add: calculatePositionAlerts_def r k)
qed

text \<open>The operands of the examples are doubles of moderate size.\<close>

lemma moderate_examples:
  "moderateDivisor 100" "moderateDivisor 2" "moderateDivisor (45 / 2)"
  "moderate 104" "moderate (821 / 8)" "moderate 102" "moderate 109"
  "moderate 3" "moderate 9" "moderate 75" "moderate 65"
  "moderate (3 / 8)" "moderate 1" "moderate (63 / 8)"
  by code_simp+

text \<open>
  C3, as amended.  The roll evaluation computes in double arithmetic, each operation
  rounding its result to the nearest double.  With the target roll price, the approach
  price, the overshoot percent and the distance computed so, for an open position and
  operands for which these are finite: at or above the target roll price a \<open>roll\<close> alert is
  returned, of urgency \<open>high\<close> when the overshoot percent is at least 1, \<open>medium\<close> when it
  is at least 0.25, and \<open>low\<close> otherwise; in the band from the approach price up to the
  target a \<open>warning\<close> of urgency \<open>low\<close>; otherwise nothing; the distance reported is the
  computed (price \<minus> strike) / strike \<times> 100 in both cases.  The evaluation of the position
  (\<open>calculatePositionAlerts\<close>) holds, besides close alerts, exactly that result for a
  stock price other than \<open>0\<close>.
\<close>

theorem roll_evaluation:
  assumes "status p = Open" and "moderateDivisor (strike p)"
    and "moderate price" and "moderate (rollThreshold c)"
  shows "(price \<ge> targetRollPrice p c \<longrightarrow>
            (\<exists>a. calculateRollAlert p price c = Some a \<and> alertType a = Roll
                 \<and> urgency a = (if overshootPercent p c price \<ge> 1 then High
                                 else if overshootPercent p c price \<ge> 1 / 4 then Medium
                                 else Low)
                 \<and> currentDistance a = distancePercent p price))
       \<and> (approachPrice p c \<le> price \<and> price < targetRollPrice p c \<longrightarrow>
            (\<exists>a. calculateRollAlert p price c = Some a \<and> alertType a = Warning
                 \<and> urgency a = Low
                 \<and> currentDistance a = distancePercent p price))
       \<and> (\<not> price \<ge> targetRollPrice p c
            \<and> \<not> (approachPrice p c \<le> price \<and> price < targetRollPrice p c) \<longrightarrow>
            calculateRollAlert p price c = None)
       \<and> (price \<noteq> 0 \<longrightarrow>
            filter (\<lambda>a. alertType a \<noteq> Close)
              (calculatePositionAlerts p (Some price) optionPrice c)
            = pushed (calculateRollAlert p price c))"
  using assms(1)
  by (auto simp add: roll_alerts_of_position calculateRollAlert_def Let_def targetRollPrice_def
        approachPrice_def overshootPercent_def distancePercent_def)

text \<open>
  The claim as it was stated, with the target roll price strike \<times> (1 + rollThreshold / 100)
  of exact arithmetic, fails at a strike of 100, a roll threshold of 9 and a price of 109:
  the price is at the exact target, 109, and the alert is a warning, the computed target
  being the next double above 109.
\<close>

theorem roll_rounding_counterexample:
  "status examplePut = Open
   \<and> strike examplePut = 100
   \<and> rollThreshold rollNine = 9
   \<and> exactTargetRollPrice examplePut rollNine = 109
   \<and> map_option alertType (calculateRollAlert examplePut 109 rollNine) = Some Warning"
  by code_simp

lemma roll_examples:
  "targetRollPrice examplePut STANDARD_STRATEGY = 103"
  "overshootPercent examplePut STANDARD_STRATEGY 104 = 1"
  "distancePercent examplePut 104 = 4"
  "approachPrice examplePut STANDARD_STRATEGY \<le> 821 / 8"
  "distancePercent examplePut (821 / 8) = 21 / 8"
  "102 < approachPrice examplePut STANDARD_STRATEGY"
  by code_simp+

theorem roll_evaluation_witness:
  "status examplePut = Open \<and> moderateDivisor (strike examplePut)
   \<and> moderate (rollThreshold STANDARD_STRATEGY)
   \<and> (\<exists>a. calculateRollAlert examplePut 104 STANDARD_STRATEGY = Some a
          \<and> alertType a = Roll \<and> urgency a = High \<and> currentDistance a = 4)
   \<and> (\<exists>a. calculateRollAlert examplePut (821 / 8) STANDARD_STRATEGY = Some a
          \<and> alertType a = Warning \<and> urgency a = Low \<and> currentDistance a = 21 / 8)
   \<and> calculateRollAlert examplePut 102 STANDARD_STRATEGY = None
   \<and> map urgency (calculatePositionAlerts examplePut (Some 104) None STANDARD_STRATEGY) = [High]"
proof -
  have h1: "status examplePut = Open"
    by (simp add: examplePut_def)
  have h2: "moderateDivisor (strike examplePut)"
    by (simp add: examplePut_def moderate_examples)
  have h3: "moderate (rollThreshold STANDARD_STRATEGY)"
    by (simp add: STANDARD_STRATEGY_def moderate_examples)
  note r = roll_evaluation [OF h1 h2 _ h3]
  from r [of 104] roll_examples
  have a: "\<exists>a. calculateRollAlert examplePut 104 STANDARD_STRATEGY = Some a
          \<and> alertType a = Roll \<and> urgency a = High \<and> currentDistance a = 4"
    by (simp add: moderate_examples)
  from r [of "821 / 8"] roll_examples
  have b: "\<exists>a. calculateRollAlert examplePut (821 / 8) STANDARD_STRATEGY = Some a
          \<and> alertType a = Warning \<and> urgency a = Low \<and> currentDistance a = 21 / 8"
    by (simp add: moderate_examples)
  from r [of 102] roll_examples
  have c: "calculateRollAlert examplePut 102 STANDARD_STRATEGY = None"
    by (simp add: moderate_examples)
  from r [of 104 None] a
  have d: "map urgency (calculatePositionAlerts examplePut (Some 104) None STANDARD_STRATEGY)
           = [High]"
    by (auto simp add: moderate_examples calculatePositionAlerts_def)
  from h1 h2 h3 a b c d show ?thesis
    by blast
qed

text \<open>
  C4, as amended.  The close evaluation computes in double arithmetic, each operation
  rounding its result to the nearest double.  With the target close price and the profit
  percent computed so, for an open position and operands for which these are finite:
  \<open>calculateCloseAlert\<close> with a non-null option price returns a \<open>close\<close> alert iff the option
  price is at most the target close price, the profit percent being the distance and the
  urgency being \<open>high\<close> iff the profit percent is at least the computed closeThreshold + 5,
  else \<open>medium\<close>; with a null option price it returns nothing.  The evaluation of the
  position (\<open>calculatePositionAlerts\<close>) holds that close alert when the option price is
  neither null nor \<open>0\<close>, and no close alert when it is null or \<open>0\<close>.
\<close>

theorem close_evaluation:
  assumes "status p = Open" and "moderateDivisor (premium p)"
    and "moderate optionPrice" and "moderate (closeThreshold c)"
  shows "(optionPrice \<le> targetClosePrice p c \<longrightarrow>
            (\<exists>a. calculateCloseAlert p (Some optionPrice) c = Some a \<and> alertType a = Close
                 \<and> currentDistance a = profitPercent p optionPrice
                 \<and> urgency a = (if profitPercent p optionPrice \<ge> dadd (closeThreshold c) 5
                                 then High else Medium)))
       \<and> (\<not> optionPrice \<le> targetClosePrice p c \<longrightarrow>
            calculateCloseAlert p (Some optionPrice) c = None)
       \<and> calculateCloseAlert p None c = None
       \<and> filter (\<lambda>a. alertType a = Close)
             (calculatePositionAlerts p stockPrice (Some optionPrice) c) =
           (if optionPrice \<noteq> 0 then pushed (calculateCloseAlert p (Some optionPrice) c) else [])
       \<and> filter (\<lambda>a. alertType a = Close) (calculatePositionAlerts p stockPrice None c) = []"
  using assms(1)
  by (simp add: close_alerts_of_position)
     (simp add: calculateCloseAlert_def Let_def targetClosePrice_def profitPercent_def)

text \<open>
  The claim as it was stated fails twice.  With the target close price
  premium \<times> (100 \<minus> closeThreshold) / 100 of exact arithmetic it fails at a premium of 22.50,
  a close threshold of 65 and an option price of 7.875: the option price is at the exact
  target, and no alert is returned, the computed target being the next double below.  And
  it fails at an option price of \<open>0\<close>, which is not null and lies below the target close
  price 0.50 of the example put: the evaluation of the position returns no alert.
\<close>

theorem close_rounding_and_zero_counterexample:
  "status richPut = Open
   \<and> premium richPut = 45 / 2
   \<and> closeThreshold closeSixtyFive = 65
   \<and> exactTargetClosePrice richPut closeSixtyFive = 63 / 8
   \<and> calculateCloseAlert richPut (Some (63 / 8)) closeSixtyFive = None
   \<and> status examplePut = Open
   \<and> exactTargetClosePrice examplePut STANDARD_STRATEGY = 1 / 2
   \<and> targetClosePrice examplePut STANDARD_STRATEGY = 1 / 2
   \<and> calculatePositionAlerts examplePut None (Some 0) STANDARD_STRATEGY = []"
  by code_simp

lemma close_examples:
  "targetClosePrice examplePut STANDARD_STRATEGY = 1 / 2"
  "profitPercent examplePut (3 / 8) = 325 / 4"
  "dadd (closeThreshold STANDARD_STRATEGY) 5 = 80"
  by code_simp+

theorem close_evaluation_witness:
  "status examplePut = Open \<and> moderateDivisor (premium examplePut)
   \<and> moderate (closeThreshold STANDARD_STRATEGY)
   \<and> (\<exists>a. calculateCloseAlert examplePut (Some (3 / 8)) STANDARD_STRATEGY = Some a
          \<and> alertType a = Close \<and> currentDistance a = 325 / 4 \<and> urgency a = High)
   \<and> calculateCloseAlert examplePut (Some 1) STANDARD_STRATEGY = None"
proof -
  have h1: "status examplePut = Open"
    by (simp add: examplePut_def)
  have h2: "moderateDivisor (premium examplePut)"
    by (simp add: examplePut_def moderate_examples)
  have h3: "moderate (closeThreshold STANDARD_STRATEGY)"
    by (simp add: STANDARD_STRATEGY_def moderate_examples)
  note r = close_evaluation [OF h1 h2 _ h3]
  from r [of "3 / 8"] close_examples
  have a: "\<exists>a. calculateCloseAlert examplePut (Some (3 / 8)) STANDARD_STRATEGY = Some a
          \<and> alertType a = Close \<and> currentDistance a = 325 / 4 \<and> urgency a = High"
    by (simp add: moderate_examples)
  from r [of 1] close_examples
  have b: "calculateCloseAlert examplePut (Some 1) STANDARD_STRATEGY = None"
    by (simp add: moderate_examples)
  from h1 h2 h3 a b show ?thesis
    by blast
qed

section \<open>The ranking of the alerts\<close>

lemma set_insertBy: "set (insertBy cmp x xs) = insert x (set xs)"
  by (induction xs) auto

lemma length_insertBy: "length (insertBy cmp x xs) = Suc (length xs)"
  by (induction xs) auto

lemma set_sortBy: "set (sortBy cmp xs) = set xs"
  unfolding sortBy_def by (induction xs) (simp_all add: set_insertBy)

lemma length_sortBy: "length (sortBy cmp xs) = length xs"
  unfolding sortBy_def by (induction xs) (simp_all add: length_insertBy)

lemma sorted_insertBy:
  assumes total: "\<And>a b. cmp a b > 0 \<Longrightarrow> cmp b a \<le> 0"
    and trans: "\<And>a b c. cmp a b \<le> 0 \<Longrightarrow> cmp b c \<le> 0 \<Longrightarrow> cmp a c \<le> 0"
    and sorted: "sorted_wrt (\<lambda>a b. cmp a b \<le> 0) xs"
  shows "sorted_wrt (\<lambda>a b. cmp a b \<le> 0) (insertBy cmp x xs)"
  using sorted
proof (induction xs)
  case Nil
  then show ?case by simp
next
  case (Cons y ys)
  show ?case
  proof (cases "cmp x y > 0")
    case True
    with Cons total [OF True] show ?thesis
      by (auto simp add: set_insertBy)
  next
    case False
    then have xy: "cmp x y \<le> 0" by simp
    have "cmp x z \<le> 0" if "z \<in> set ys" for z
      using Cons.prems that trans [OF xy] by auto
    with Cons.prems xy False show ?thesis by auto
  qed
qed

lemma sorted_sortBy:
  assumes total: "\<And>a b. cmp a b > 0 \<Longrightarrow> cmp b a \<le> 0"
    and trans: "\<And>a b c. cmp a b \<le> 0 \<Longrightarrow> cmp b c \<le> 0 \<Longrightarrow> cmp a c \<le> 0"
  shows "sorted_wrt (\<lambda>a b. cmp a b \<le> 0) (sortBy cmp xs)"
  unfolding sortBy_def
proof (induction xs)
  case Nil
  show ?case by simp
next
  case (Cons x xs)
  from sorted_insertBy [of cmp, OF total trans Cons]
  show ?case by simp
qed

lemma urgencyOrder_less_iff: "urgencyOrder u < urgencyOrder v \<longleftrightarrow> urgencyPrecedes u v"
  by (cases u; cases v) (simp_all add: urgencyPrecedes_def)

lemma urgencyOrder_eq_iff: "urgencyOrder u = urgencyOrder v \<longleftrightarrow> u = v"
  by (cases u; cases v) simp_all

lemma compareAlerts_le_iff:
  "compareAlerts a b \<le> 0 \<longleftrightarrow>
     urgencyOrder (urgency a) < urgencyOrder (urgency b)
     \<or> (urgencyOrder (urgency a) = urgencyOrder (urgency b)
        \<and> \<bar>currentDistance b\<bar> \<le> \<bar>currentDistance a\<bar>)"
  by (auto simp add: compareAlerts_def)

lemma compareAlerts_total: "compareAlerts a b > 0 \<Longrightarrow> compareAlerts b a \<le> 0"
  using compareAlerts_le_iff [of a b] compareAlerts_le_iff [of b a] by auto

lemma compareAlerts_trans:
  "compareAlerts a b \<le> 0 \<Longrightarrow> compareAlerts b c \<le> 0 \<Longrightarrow> compareAlerts a c \<le> 0"
  unfolding compareAlerts_le_iff by auto

lemma calculateAllAlerts_sorted:
  "sorted_wrt (\<lambda>a b. compareAlerts a b \<le> 0) (calculateAllAlerts ps stockPrices optionPrices config)"
  unfolding calculateAllAlerts_def
  by (rule sorted_sortBy) (auto intro: compareAlerts_total compareAlerts_trans)

text \<open>
  C8.  In the list returned by \<open>calculateAllAlerts\<close>, an alert whose urgency strictly
  precedes that of another one in the order high, medium, low stands before it, and of two
  alerts of equal urgency the one with the strictly larger absolute distance stands first.
\<close>

theorem alerts_ranked:
  assumes "out = calculateAllAlerts ps stockPrices optionPrices config"
    and "i < length out" and "j < length out"
  shows "(urgencyPrecedes (urgency (out ! i)) (urgency (out ! j)) \<longrightarrow> i < j)
       \<and> (urgency (out ! i) = urgency (out ! j)
            \<and> \<bar>currentDistance (out ! i)\<bar> > \<bar>currentDistance (out ! j)\<bar> \<longrightarrow> i < j)"
proof -
  have s: "sorted_wrt (\<lambda>a b. compareAlerts a b \<le> 0) out"
    using assms(1) by (simp add: calculateAllAlerts_sorted)
  have le: "compareAlerts (out ! j) (out ! i) \<le> 0" if "j < i"
    using sorted_wrt_nth_less [OF s that assms(2)] .
  have eq: "compareAlerts (out ! j) (out ! i) \<le> 0" if "j = i"
    using that by (simp add: compareAlerts_def)
  have "i < j" if "compareAlerts (out ! j) (out ! i) > 0"
  proof (rule ccontr)
    assume "\<not> i < j"
    then have "j < i \<or> j = i" by auto
    with le eq that show False by auto
  qed
  moreover have "compareAlerts (out ! j) (out ! i) > 0"
    if "urgencyPrecedes (urgency (out ! i)) (urgency (out ! j))"
    using that compareAlerts_le_iff [of "out ! j" "out ! i"]
    by (auto simp add: urgencyOrder_less_iff [symmetric])
  moreover have "compareAlerts (out ! j) (out ! i) > 0"
    if "urgency (out ! i) = urgency (out ! j)"
      and "\<bar>currentDistance (out ! i)\<bar> > \<bar>currentDistance (out ! j)\<bar>"
    using that by (simp add: compareAlerts_def)
  ultimately show ?thesis by blast
qed

lemma upper_XYZ: "toUpperCase ''XYZ'' = ''XYZ''"
  by code_simp

lemma upper_abc: "toUpperCase ''abc'' = ''ABC''"
  by code_simp

lemma upper_QQQ: "toUpperCase ''QQQ'' = ''QQQ''"
  by code_simp

lemma example_out:
  "map (\<lambda>a. (positionId a, alertType a, urgency a, currentDistance a))
     (calculateAllAlerts [examplePut2, examplePut, examplePut3] examplePrices None STANDARD_STRATEGY)
   = [(''p3'', Roll, High, 5), (''p1'', Roll, High, 4), (''p2'', Warning, Low, 21 / 8)]"
  by code_simp

theorem alerts_ranked_witness:
  "map (\<lambda>a. (positionId a, alertType a, urgency a, currentDistance a))
     (calculateAllAlerts [examplePut2, examplePut, examplePut3] examplePrices None STANDARD_STRATEGY)
   = [(''p3'', Roll, High, 5), (''p1'', Roll, High, 4), (''p2'', Warning, Low, 21 / 8)]
   \<and> urgencyPrecedes High Low \<and> \<bar>5 :: number\<bar> > \<bar>4\<bar> \<and> (0::nat) < 1 \<and> (1::nat) < 2"
proof -
  define out where
    "out = calculateAllAlerts [examplePut2, examplePut, examplePut3] examplePrices None STANDARD_STRATEGY"
  have m: "map (\<lambda>a. (positionId a, alertType a, urgency a, currentDistance a)) out
           = [(''p3'', Roll, High, 5), (''p1'', Roll, High, 4), (''p2'', Warning, Low, 21 / 8)]"
    unfolding out_def by (rule example_out)
  from arg_cong [OF m, of length] have len: "length out = 3" by simp
  have i0: "0 < length out" and i1: "1 < length out" and i2: "2 < length out"
    using len by simp_all
  from alerts_ranked [OF out_def i1 i2] alerts_ranked [OF out_def i0 i1] m
  show ?thesis unfolding out_def by (simp add: urgencyPrecedes_def)
qed

section \<open>Wheel cycles\<close>

subsection \<open>One step\<close>

lemma accrue_name: "name (accrue c p) = name c"
  by (simp add: accrue_def Let_def split: option.splits)

lemma accrue_cycleStatus: "cycleStatus c = Active \<Longrightarrow> cycleStatus (accrue c p) = Active"
  by (simp add: accrue_def Let_def split: option.splits)

subsection \<open>The cycle of a group\<close>

lemma foldl_accrue_name: "name (foldl accrue c qs) = name c"
  by (induction qs arbitrary: c) (simp_all add: accrue_name)

lemma foldl_accrue_cycleStatus:
  "cycleStatus c = Active \<Longrightarrow> cycleStatus (foldl accrue c qs) = Active"
  by (induction qs arbitrary: c) (simp_all add: accrue_cycleStatus)

subsection \<open>The grouping loop\<close>

lemma map_of_updateCycle: "map_of (updateCycle k v m) = (map_of m)(k \<mapsto> v)"
  by (induction m) (auto simp add: fun_eq_iff)

lemma keys_updateCycle:
  "set (map fst (updateCycle k v m)) = insert k (set (map fst m))"
proof (induction m)
  case Nil
  show ?case by simp
next
  case (Cons e m)
  obtain k' v' where e: "e = (k', v')" by (cases e)
  show ?case
  proof (cases "k' = k")
    case True
    with e show ?thesis by simp
  next
    case False
    with e Cons.IH show ?thesis by (simp add: insert_commute)
  qed
qed

lemma distinct_updateCycle:
  "distinct (map fst m) \<Longrightarrow> distinct (map fst (updateCycle k v m))"
proof (induction m)
  case Nil
  show ?case by simp
next
  case (Cons e m)
  from Cons.prems have "fst e \<notin> set (map fst m)" and "distinct (map fst m)"
    by simp_all
  with Cons.IH keys_updateCycle [of k v m] show ?case
    by (cases e) auto
qed

lemma grouped_Nil: "grouped [] []"
  by (simp add: grouped_def groupOf_def)

lemma grouped_addPosition:
  assumes "grouped qs m"
  shows "grouped (qs @ [p]) (addPosition m p)"
proof -
  from assms have d: "distinct (map fst m)"
    and look: "\<And>k. map_of m k = (if groupOf k qs = [] then None
                           else Some (foldl accrue (newCycle k) (groupOf k qs)))"
    by (simp_all add: grouped_def)
  have g: "groupOf k (qs @ [p]) = (if cycleNameOf p = k then groupOf k qs @ [p] else groupOf k qs)"
    for k
    by (simp add: groupOf_def)
  have step: "map_of (addPosition m p)
              = (map_of m)(cycleNameOf p \<mapsto>
                   foldl accrue (newCycle (cycleNameOf p)) (groupOf (cycleNameOf p) qs @ [p]))"
    by (simp add: addPosition_def Let_def map_of_updateCycle look)
  have "distinct (map fst (addPosition m p))"
    using d by (simp add: addPosition_def Let_def distinct_updateCycle split: option.splits)
  moreover have "map_of (addPosition m p) k
       = (if groupOf k (qs @ [p]) = [] then None
          else Some (foldl accrue (newCycle k) (groupOf k (qs @ [p]))))" for k
    unfolding step g by (simp add: look)
  ultimately show ?thesis
    by (simp add: grouped_def)
qed

lemma grouped_foldl: "grouped qs m \<Longrightarrow> grouped (qs @ ps) (foldl addPosition m ps)"
proof (induction ps arbitrary: qs m)
  case Nil
  then show ?case by simp
next
  case (Cons p ps)
  from Cons.IH [OF grouped_addPosition [OF Cons.prems, of p]]
  show ?case by simp
qed

lemma grouped_groupPositions: "grouped ps (groupPositions ps)"
  using grouped_foldl [OF grouped_Nil, of ps] by (simp add: groupPositions_def)

lemma in_groupPositions:
  assumes "(k, c) \<in> set (groupPositions ps)"
  shows "c = foldl accrue (newCycle k) (groupOf k ps)"
proof -
  from grouped_groupPositions [of ps] have d: "distinct (map fst (groupPositions ps))"
    and look: "map_of (groupPositions ps) k = (if groupOf k ps = [] then None
                           else Some (foldl accrue (newCycle k) (groupOf k ps)))"
    by (simp_all add: grouped_def)
  from d assms have "map_of (groupPositions ps) k = Some c"
    by simp
  with look show ?thesis
    by (simp split: if_splits)
qed

text \<open>Every cycle before the summary is the cycle of its group, with its status decided.\<close>

lemma in_cyclesOf:
  assumes "c \<in> set (cyclesOf ps)"
  shows "c = determineStatus (foldl accrue (newCycle (name c)) (groupOf (name c) ps))"
proof -
  from assms obtain k c0 where kc: "(k, c0) \<in> set (groupPositions ps)"
    and c: "c = determineStatus c0"
    by (auto simp add: cyclesOf_def)
  from kc have c0: "c0 = foldl accrue (newCycle k) (groupOf k ps)"
    by (rule in_groupPositions)
  then have "name c0 = k"
    by (simp add: foldl_accrue_name newCycle_def)
  then have "name c = k"
    using c by (simp add: determineStatus_def)
  with c c0 show ?thesis by simp
qed

lemma in_wheelCycles:
  assumes "s \<in> set (wheelCycles ps)"
  shows "s = summarize (determineStatus (foldl accrue (newCycle (name s)) (groupOf (name s) ps)))"
proof -
  from assms obtain c where c: "c \<in> set (cyclesOf ps)" and s: "s = summarize c"
    by (auto simp add: wheelCycles_def set_sortBy)
  from s have "name s = name c"
    by (simp add: summarize_def)
  with in_cyclesOf [OF c] s show ?thesis by simp
qed

text \<open>
  C6.  Every cycle in the response of the wheel-cycle aggregation is \<open>completed\<close> iff its
  count of open positions is 0 and its count of closed positions is positive, and
  \<open>active\<close> otherwise.
\<close>

theorem cycle_status:
  "\<forall>s \<in> set (wheelCycles ps).
     (cycleStatus s = Completed \<longleftrightarrow> openPositions s = 0 \<and> closedPositions s > 0)
     \<and> (cycleStatus s = Active \<longleftrightarrow> \<not> (openPositions s = 0 \<and> closedPositions s > 0))"
proof
  fix s assume "s \<in> set (wheelCycles ps)"
  then have s: "s = summarize (determineStatus
                      (foldl accrue (newCycle (name s)) (groupOf (name s) ps)))"
    by (rule in_wheelCycles)
  have a: "cycleStatus (foldl accrue (newCycle (name s)) (groupOf (name s) ps)) = Active"
    by (rule foldl_accrue_cycleStatus) (simp add: newCycle_def)
  show "(cycleStatus s = Completed \<longleftrightarrow> openPositions s = 0 \<and> closedPositions s > 0)
     \<and> (cycleStatus s = Active \<longleftrightarrow> \<not> (openPositions s = 0 \<and> closedPositions s > 0))"
    by (subst (1 2 3 4 5 6) s) (simp add: summarize_def determineStatus_def a)
qed

lemma example_cycles:
  "wheelCycles [examplePut, closedPutStored, closedPutABC] =
     [\<lparr>name = ''XYZ'', totalPositions = 2, openPositions = 1, closedPositions = 1,
       totalPL = 347, realizedPL_c = 148, unrealizedPL_c = 199, totalPremiumCollected = 350,
       cycleStatus = Active\<rparr>,
      \<lparr>name = ''ABC'', totalPositions = 1, openPositions = 0, closedPositions = 1,
       totalPL = 148, realizedPL_c = 148, unrealizedPL_c = 0, totalPremiumCollected = 150,
       cycleStatus = Completed\<rparr>]"
  by code_simp

theorem cycle_status_witness:
  "map (\<lambda>s. (name s, openPositions s, closedPositions s, cycleStatus s))
     (wheelCycles [examplePut, closedPutStored, closedPutABC])
   = [(''XYZ'', 1, 1, Active), (''ABC'', 0, 1, Completed)]"
  using cycle_status [of "[examplePut, closedPutStored, closedPutABC]"]
  by (simp add: example_cycles)

text \<open>What the loop does with an assigned position: it is counted and accrued as an open one.\<close>

lemma accrue_assigned:
  assumes "status p = Assigned"
  shows "realizedPL_c (accrue c p) = realizedPL_c c"
    and "unrealizedPL_c (accrue c p)
         = dadd (unrealizedPL_c c)
             (dsub (dmul (dmul (premium p) (contracts p)) 100) (orZero (openFees p)))"
    and "openPositions (accrue c p) = openPositions c + 1"
    and "closedPositions (accrue c p) = closedPositions c"
  using assms by (simp_all add: accrue_def Let_def)

text \<open>What the loop of the portfolio metrics does with it: the premium component is realized.\<close>

lemma accrueStatus_assigned:
  assumes "status p = Assigned" and "premiumRealizedPL p = Some x" and "x \<noteq> 0"
  shows "realizedPL_m (accrueStatus prices m p) = dadd (realizedPL_m m) x"
    and "premiumUnrealizedPL_m (accrueStatus prices m p) = premiumUnrealizedPL_m m"
  using assms
  by (simp_all add: accrueStatus_def Let_def plusTruthy_def split: option.splits)

text \<open>
  C7.  The wheel-cycle aggregator is to credit the premium component of an assigned
  position to the realized P/L of its cycle, as the portfolio aggregator does.  It does
  not: on the one assigned position \<open>stockHolder\<close>, whose premium component is 199, the
  cycle has a realized P/L of 0 and an unrealized P/L of 199, where the portfolio metrics
  have a realized P/L of 199 and an unrealized P/L of 0.
\<close>

theorem assigned_premium_in_cycle:
  "status stockHolder = Assigned
   \<and> premiumRealizedPL stockHolder = Some 199
   \<and> map (\<lambda>s. (name s, openPositions s, realizedPL_c s, unrealizedPL_c s))
         (wheelCycles [stockHolder])
       = [(''XYZ'', 1, 0, 199)]
   \<and> realizedPL_m (portfolioMetrics [stockHolder] Map.empty) = 199
   \<and> premiumRealizedPL_m (portfolioMetrics [stockHolder] Map.empty) = 199
   \<and> unrealizedPL_m (portfolioMetrics [stockHolder] Map.empty) = 0"
  by code_simp

section \<open>A price of zero\<close>

lemma orNull_zero: "orNull ((m(t \<mapsto> 0)) k) = orNull ((m(t := None)) k)"
  by simp

lemma ticker_calculateRollAlert:
  "calculateRollAlert p price c = Some a \<Longrightarrow> ticker a = stockTicker p"
  by (auto simp add: calculateRollAlert_def Let_def split: if_splits)

lemma ticker_calculateCloseAlert:
  "calculateCloseAlert p v c = Some a \<Longrightarrow> ticker a = stockTicker p"
  by (auto simp add: calculateCloseAlert_def Let_def split: if_splits option.splits)

lemma in_pushed: "a \<in> set (pushed r) \<longleftrightarrow> r = Some a"
  by (cases r) auto

lemma positionAlerts_ticker:
  "a \<in> set (calculatePositionAlerts p sp op c) \<Longrightarrow> ticker a = stockTicker p"
  by (auto simp add: calculatePositionAlerts_def in_pushed split: option.splits if_splits
      dest: ticker_calculateRollAlert ticker_calculateCloseAlert)

lemma positionAlerts_no_stock_price:
  "a \<in> set (calculatePositionAlerts p None op c) \<Longrightarrow> alertType a = Close"
  by (auto simp add: calculatePositionAlerts_def in_pushed split: if_splits
      dest: alertType_calculateCloseAlert)

lemma positionAlerts_no_price: "calculatePositionAlerts p None None c = []"
  by (simp add: calculatePositionAlerts_def)

lemma positionAlerts_zero_stock_price:
  "calculatePositionAlerts p (Some 0) op c = calculatePositionAlerts p None op c"
  by (simp add: calculatePositionAlerts_def)

lemma positionAlerts_zero_option_price:
  "calculatePositionAlerts p sp (Some 0) c = calculatePositionAlerts p sp None c"
  by (simp add: calculatePositionAlerts_def)

lemma collectAlerts_zero_stock_price:
  "collectAlerts ps (stockPrices(t \<mapsto> 0)) optionPrices config
   = collectAlerts ps (stockPrices(t := None)) optionPrices config"
  unfolding collectAlerts_def Let_def orNull_zero ..

lemma collectAlerts_zero_option_price:
  "collectAlerts ps stockPrices (Some (prices(k \<mapsto> 0))) config
   = collectAlerts ps stockPrices (Some (prices(k := None))) config"
  unfolding collectAlerts_def Let_def option.case orNull_zero ..

lemma collectAlerts_zero_ticker:
  assumes "a \<in> set (collectAlerts ps (stockPrices(t \<mapsto> 0)) optionPrices config)"
    and "toUpperCase (ticker a) = t"
  shows "alertType a = Close \<and> optionPrices \<noteq> None"
proof -
  from assms(1) obtain p where p: "p \<in> set ps" "status p = Open"
    and a: "a \<in> set (calculatePositionAlerts p
                 (orNull ((stockPrices(t \<mapsto> 0)) (toUpperCase (stockTicker p))))
                 (orNull (case optionPrices of None \<Rightarrow> None | Some prices \<Rightarrow> prices (posId p)))
                 config)"
    by (auto simp add: collectAlerts_def Let_def split: if_splits)
  from a have "ticker a = stockTicker p"
    by (rule positionAlerts_ticker)
  with assms(2) have t: "toUpperCase (stockTicker p) = t" by simp
  from a t have a': "a \<in> set (calculatePositionAlerts p None
                 (orNull (case optionPrices of None \<Rightarrow> None | Some prices \<Rightarrow> prices (posId p)))
                 config)"
    by simp
  then have "alertType a = Close"
    by (rule positionAlerts_no_stock_price)
  moreover have "optionPrices \<noteq> None"
  proof
    assume "optionPrices = None"
    with a' show False by (simp add: positionAlerts_no_price)
  qed
  ultimately show ?thesis by simp
qed

lemma accrueStatus_zero_price:
  "accrueStatus (prices(t \<mapsto> 0)) m p = accrueStatus (prices(t := None)) m p"
  by (simp add: accrueStatus_def Let_def)

lemma accruePosition_zero_price:
  "accruePosition (prices(t \<mapsto> 0)) = accruePosition (prices(t := None))"
  by (intro ext) (simp add: accruePosition_def Let_def accrueStatus_zero_price)

lemma stockUnrealized_accrueCapital:
  "stockUnrealizedPL_m (accrueCapital m p) = stockUnrealizedPL_m m"
  by (simp add: accrueCapital_def Let_def)

lemma stockUnrealized_zero_price:
  "prices (toUpperCase (stockTicker p)) = Some 0 \<Longrightarrow>
   stockUnrealizedPL_m (accruePosition prices m p) = stockUnrealizedPL_m m"
  by (simp add: accruePosition_def Let_def stockUnrealized_accrueCapital accrueStatus_def)

text \<open>
  C10, as amended.  A price of exactly \<open>0\<close> counts as an absent price.  The alerts computed with a
  stock price map that sends a ticker to \<open>0\<close> are those computed with the entry removed,
  and likewise for an option price of \<open>0\<close>; none of them is a roll or a warning for that
  ticker; a close alert for it can occur, and only when option prices are supplied.  For one
  position, a stock price of \<open>0\<close> gives what a null stock price gives, and an option
  price of \<open>0\<close> what a null option price gives.  The portfolio metrics computed with a
  price of \<open>0\<close> for a ticker are those computed without the entry, and a position whose
  looked-up price is \<open>0\<close> adds nothing to the stock unrealized P/L.
\<close>

theorem zero_price_as_absent:
  "calculateAllAlerts ps (stockPrices(t \<mapsto> 0)) optionPrices config
     = calculateAllAlerts ps (stockPrices(t := None)) optionPrices config
   \<and> calculateAllAlerts ps stockPrices (Some (prices(k \<mapsto> 0))) config
     = calculateAllAlerts ps stockPrices (Some (prices(k := None))) config
   \<and> (\<forall>a \<in> set (calculateAllAlerts ps (stockPrices(t \<mapsto> 0)) optionPrices config).
        toUpperCase (ticker a) = t \<longrightarrow> alertType a = Close \<and> optionPrices \<noteq> None)
   \<and> calculatePositionAlerts p (Some 0) optionPrice config
     = calculatePositionAlerts p None optionPrice config
   \<and> calculatePositionAlerts p stockPrice (Some 0) config
     = calculatePositionAlerts p stockPrice None config
   \<and> portfolioMetrics ps (stockPrices(t \<mapsto> 0)) = portfolioMetrics ps (stockPrices(t := None))
   \<and> (currentStockPrices (toUpperCase (stockTicker p)) = Some 0 \<longrightarrow>
        stockUnrealizedPL_m (accruePosition currentStockPrices m p) = stockUnrealizedPL_m m)"
  by (simp add: calculateAllAlerts_def collectAlerts_zero_stock_price
      collectAlerts_zero_option_price set_sortBy collectAlerts_zero_ticker
      positionAlerts_zero_stock_price positionAlerts_zero_option_price
      portfolioMetrics_def rawMetrics_def accruePosition_zero_price stockUnrealized_zero_price)

lemma example_close_alert:
  "map alertType (calculateAllAlerts [examplePut] [''XYZ'' \<mapsto> 0] (Some [''p1'' \<mapsto> 3 / 8])
       STANDARD_STRATEGY) = [Close]
   \<and> map ticker (calculateAllAlerts [examplePut] [''XYZ'' \<mapsto> 0] (Some [''p1'' \<mapsto> 3 / 8])
       STANDARD_STRATEGY) = [''XYZ'']"
  by code_simp

text \<open>
  The claim as it was stated, with no close alert either for the ticker whose price is
  \<open>0\<close>, fails when an option price is supplied for a position of that ticker: with a
  stock price of \<open>0\<close> for \<open>XYZ\<close> and an option price of 0.375 for the example put, the
  one alert returned is a close alert for \<open>XYZ\<close>.
\<close>

theorem close_alert_at_zero_stock_price:
  "map (\<lambda>a. (ticker a, alertType a))
     (calculateAllAlerts [examplePut] [''XYZ'' \<mapsto> 0] (Some [''p1'' \<mapsto> 3 / 8])
        STANDARD_STRATEGY)
   = [(''XYZ'', Close)]"
  by code_simp

theorem zero_price_as_absent_witness:
  "calculateAllAlerts [examplePut] [''XYZ'' \<mapsto> 0] (Some [''p1'' \<mapsto> 3 / 8]) STANDARD_STRATEGY
     = calculateAllAlerts [examplePut] Map.empty (Some [''p1'' \<mapsto> 3 / 8]) STANDARD_STRATEGY
   \<and> map alertType (calculateAllAlerts [examplePut] [''XYZ'' \<mapsto> 0] (Some [''p1'' \<mapsto> 3 / 8])
         STANDARD_STRATEGY) = [Close]
   \<and> calculateAllAlerts [examplePut] [''XYZ'' \<mapsto> 0] None STANDARD_STRATEGY = []
   \<and> [''XYZ'' \<mapsto> 0 :: number] (toUpperCase (stockTicker stockHolder)) = Some 0
   \<and> stockUnrealizedPL_m
         (accruePosition [''XYZ'' \<mapsto> 0] (initialMetrics [stockHolder]) stockHolder) = 0
   \<and> stockUnrealizedPL_m
         (accruePosition [''XYZ'' \<mapsto> 101] (initialMetrics [stockHolder]) stockHolder) = 300"
proof -
  have h: "[''XYZ'' \<mapsto> 0 :: number] (toUpperCase (stockTicker stockHolder)) = Some 0"
    by (simp add: stockHolder_def examplePut_def upper_XYZ)
  have e: "calculateAllAlerts [examplePut] [''XYZ'' \<mapsto> 0] None STANDARD_STRATEGY = []"
    by (simp add: calculateAllAlerts_def collectAlerts_def calculatePositionAlerts_def
        examplePut_def upper_XYZ sortBy_def)
  have r: "stockUnrealizedPL_m
         (accruePosition [''XYZ'' \<mapsto> 101] (initialMetrics [stockHolder]) stockHolder) = 300"
    by code_simp
  from zero_price_as_absent [where ps = "[examplePut]" and stockPrices = Map.empty
         and t = "''XYZ''" and optionPrices = "Some [''p1'' \<mapsto> 3 / 8]"
         and config = STANDARD_STRATEGY and currentStockPrices = "[''XYZ'' \<mapsto> 0]"
         and p = stockHolder and m = "initialMetrics [stockHolder]"]
       h e r example_close_alert
  show ?thesis
    by (simp add: initialMetrics_def)
qed

section \<open>Dismissals\<close>

lemma sync_dismissAlert:
  "dismissalsInSync c \<Longrightarrow> dismissalsInSync (dismissAlert now i c)"
  by (auto simp add: dismissalsInSync_def dismissAlert_def)

lemma sync_undismissAlert:
  "dismissalsInSync c \<Longrightarrow> dismissalsInSync (undismissAlert i c)"
  by (auto simp add: dismissalsInSync_def undismissAlert_def Let_def)

lemma sync_clearAllDismissed: "dismissalsInSync (clearAllDismissed c)"
  by (simp add: dismissalsInSync_def clearAllDismissed_def)

lemma sweep_list:
  "set (dismissedAlerts (expirySweep now c))
   = {i \<in> set (dismissedAlerts c). keepDismissal now (dismissedAt c) i}"
proof (cases "length (filter (keepDismissal now (dismissedAt c)) (dismissedAlerts c))
              = length (dismissedAlerts c)")
  case True
  then have "filter (keepDismissal now (dismissedAt c)) (dismissedAlerts c) = dismissedAlerts c"
    by (metis filter_True length_filter_less less_irrefl_nat)
  then have "\<forall>i \<in> set (dismissedAlerts c). keepDismissal now (dismissedAt c) i"
    by (simp add: filter_id_conv)
  with True show ?thesis
    by (auto simp add: expirySweep_def Let_def)
next
  case False
  then show ?thesis
    by (auto simp add: expirySweep_def Let_def)
qed

lemma sweep_map:
  assumes "dismissalsInSync c"
  shows "dom (dismissedAt (expirySweep now c))
   = {i \<in> dom (dismissedAt c). keepDismissal now (dismissedAt c) i}"
proof (cases "length (filter (keepDismissal now (dismissedAt c)) (dismissedAlerts c))
              = length (dismissedAlerts c)")
  case True
  then have "filter (keepDismissal now (dismissedAt c)) (dismissedAlerts c) = dismissedAlerts c"
    by (metis filter_True length_filter_less less_irrefl_nat)
  then have "\<forall>i \<in> set (dismissedAlerts c). keepDismissal now (dismissedAt c) i"
    by (simp add: filter_id_conv)
  with True assms show ?thesis
    by (auto simp add: expirySweep_def Let_def dismissalsInSync_def)
next
  case False
  with assms show ?thesis
    by (auto simp add: expirySweep_def Let_def dismissalsInSync_def)
qed

lemma sync_expirySweep:
  "dismissalsInSync c \<Longrightarrow> dismissalsInSync (expirySweep now c)"
  using sweep_list [of now c] sweep_map [of c now]
  by (auto simp add: dismissalsInSync_def)

lemma keepDismissal_expired:
  "stamps i = Some ts \<Longrightarrow> now - ts \<ge> 24 * 60 * 60 * 1000 \<Longrightarrow> \<not> keepDismissal now stamps i"
  by (simp add: keepDismissal_def ALERT_REAPPEAR_HOURS_def Let_def)

lemma keepDismissal_fresh:
  "stamps i = Some ts \<Longrightarrow> ts \<noteq> 0 \<Longrightarrow> now - ts < 24 * 60 * 60 * 1000 \<Longrightarrow> keepDismissal now stamps i"
  by (simp add: keepDismissal_def ALERT_REAPPEAR_HOURS_def Let_def)

text \<open>
  C9.  If the dismissal list and the timestamp map name the same ids, they still do after
  a dismissal, after an undismissal, after clearing and after the expiry sweep.  The sweep
  removes an id from the list exactly when it removes it from the map; a dismissal that is
  24 hours old or older is gone from both, and a younger one stays in both.
\<close>

theorem dismissals_stay_in_sync:
  assumes "dismissalsInSync c"
  shows "dismissalsInSync (dismissAlert now i c)
       \<and> dismissalsInSync (undismissAlert i c)
       \<and> dismissalsInSync (clearAllDismissed c)
       \<and> dismissalsInSync (expirySweep now c)
       \<and> (\<forall>k. k \<in> set (dismissedAlerts c) - set (dismissedAlerts (expirySweep now c))
               \<longleftrightarrow> k \<in> dom (dismissedAt c) - dom (dismissedAt (expirySweep now c)))
       \<and> (\<forall>k ts. dismissedAt c k = Some ts \<and> now - ts \<ge> 24 * 60 * 60 * 1000 \<longrightarrow>
               k \<notin> set (dismissedAlerts (expirySweep now c))
               \<and> dismissedAt (expirySweep now c) k = None)
       \<and> (\<forall>k ts. dismissedAt c k = Some ts \<and> ts \<noteq> 0 \<and> now - ts < 24 * 60 * 60 * 1000 \<longrightarrow>
               k \<in> set (dismissedAlerts (expirySweep now c))
               \<and> dismissedAt (expirySweep now c) k = Some ts)"
proof -
  have s: "dismissalsInSync (expirySweep now c)"
    using assms by (rule sync_expirySweep)
  have together: "k \<in> set (dismissedAlerts c) - set (dismissedAlerts (expirySweep now c))
               \<longleftrightarrow> k \<in> dom (dismissedAt c) - dom (dismissedAt (expirySweep now c))" for k
    using assms s by (simp add: dismissalsInSync_def)
  have expired: "k \<notin> set (dismissedAlerts (expirySweep now c))
               \<and> dismissedAt (expirySweep now c) k = None"
    if "dismissedAt c k = Some ts" "now - ts \<ge> 24 * 60 * 60 * 1000" for k ts
  proof -
    from that have "\<not> keepDismissal now (dismissedAt c) k"
      by (rule keepDismissal_expired)
    then have "k \<notin> set (dismissedAlerts (expirySweep now c))"
      by (simp add: sweep_list)
    with s show ?thesis
      by (auto simp add: dismissalsInSync_def)
  qed
  have fresh: "k \<in> set (dismissedAlerts (expirySweep now c))
               \<and> dismissedAt (expirySweep now c) k = Some ts"
    if "dismissedAt c k = Some ts" "ts \<noteq> 0" "now - ts < 24 * 60 * 60 * 1000" for k ts
  proof -
    from that have keep: "keepDismissal now (dismissedAt c) k"
      by (rule keepDismissal_fresh)
    from that(1) assms have "k \<in> set (dismissedAlerts c)"
      by (auto simp add: dismissalsInSync_def)
    with keep have in_list: "k \<in> set (dismissedAlerts (expirySweep now c))"
      by (simp add: sweep_list)
    have "dismissedAt (expirySweep now c) k = dismissedAt c k"
      using keep \<open>k \<in> set (dismissedAlerts c)\<close>
      by (simp add: expirySweep_def Let_def)
    with in_list that(1) show ?thesis by simp
  qed
  from assms s together expired fresh show ?thesis
    by (simp add: sync_dismissAlert sync_undismissAlert sync_clearAllDismissed)
qed

theorem dismissals_stay_in_sync_witness:
  "dismissalsInSync exampleConfig
   \<and> dismissedAlerts (expirySweep 87401000 exampleConfig) = [''new'']
   \<and> dismissedAt (expirySweep 87401000 exampleConfig) ''old'' = None
   \<and> dismissedAt (expirySweep 87401000 exampleConfig) ''new'' = Some 87400000
   \<and> dismissalsInSync (expirySweep 87401000 exampleConfig)
   \<and> dismissalsInSync (dismissAlert 87401000 ''p1'' exampleConfig)
   \<and> dismissalsInSync (undismissAlert ''old'' exampleConfig)"
proof -
  have h: "dismissalsInSync exampleConfig"
    by (auto simp add: dismissalsInSync_def exampleConfig_def)
  have l: "dismissedAlerts (expirySweep 87401000 exampleConfig) = [''new'']"
    by (simp add: expirySweep_def keepDismissal_def ALERT_REAPPEAR_HOURS_def exampleConfig_def Let_def)
  have o: "dismissedAt exampleConfig ''old'' = Some 1000 \<and> (87401000::int) - 1000 \<ge> 24 * 60 * 60 * 1000"
    by (simp add: exampleConfig_def)
  have n: "dismissedAt exampleConfig ''new'' = Some 87400000 \<and> (87400000::int) \<noteq> 0
           \<and> (87401000::int) - 87400000 < 24 * 60 * 60 * 1000"
    by (simp add: exampleConfig_def)
  from dismissals_stay_in_sync [OF h, of 87401000 "''p1''"]
       dismissals_stay_in_sync [OF h, of 87401000 "''old''"] h l o n
  show ?thesis by blast
qed

end
